theory Spec2Isabelle
  imports Main
begin

unbundle bit_operations_syntax

section \<open>Values, errors and constants of \<^verbatim>\<open>uws.js\<close>\<close>

text \<open>
  The JavaScript values that can sit in an event slot or be passed as a callback.
  Functions are compared by identity (\<^verbatim>\<open>!== noop\<close>, \<^verbatim>\<open>=== cb\<close>), so every function
  value carries what identifies it: \<open>Noop\<close> is the module's one \<^verbatim>\<open>noop\<close>, \<open>UserFn k\<close> a
  function of the caller's, \<open>OnceWrapper i ev f\<close> the \<open>i\<close>-th closure that \<^verbatim>\<open>once\<close> has
  allocated on a connection (for event \<open>ev\<close>, around \<open>f\<close>). \<open>Undefined\<close> is the value of
  a property that was never assigned and of an argument that was not passed.
\<close>

datatype jsval = Undefined | Noop | UserFn nat | OnceWrapper nat string jsval

fun truthy :: "jsval \<Rightarrow> bool" where
  "truthy Undefined = False"
| "truthy _ = True"

datatype js_error = Error string | ReferenceError string | TypeError string

definition EE_ERROR :: string where
  "EE_ERROR = ''Registering more than one listener to a WebSocket is not supported.''"

definition DEFAULT_PAYLOAD_LIMIT :: nat where
  "DEFAULT_PAYLOAD_LIMIT = 16777216"

definition PERMESSAGE_DEFLATE :: nat where "PERMESSAGE_DEFLATE = 1"
definition SLIDING_DEFLATE_WINDOW :: nat where "SLIDING_DEFLATE_WINDOW = 16"
definition OPCODE_TEXT :: nat where "OPCODE_TEXT = 1"
definition OPCODE_BINARY :: nat where "OPCODE_BINARY = 2"
definition OPEN :: nat where "OPEN = 1"
definition CLOSED :: nat where "CLOSED = 0"

section \<open>The Connection: classes \<^verbatim>\<open>WebSocket\<close> and \<^verbatim>\<open>WebSocketClient\<close>\<close>

text \<open>
  An engine handle is opaque; \<open>external = None\<close> is \<^verbatim>\<open>this.external = null\<close>.
  \<open>is_client\<close> is \<^verbatim>\<open>this instanceof WebSocketClient\<close>. \<open>closures\<close> counts the closures
  \<^verbatim>\<open>once\<close> has allocated, which gives each its identity.
\<close>

type_synonym handle = nat

record conn =
  is_client :: bool
  external :: "handle option"
  internalOnMessage :: jsval
  internalOnClose :: jsval
  onping :: jsval
  onpong :: jsval
  internalOnOpen :: jsval
  internalOnError :: jsval
  closures :: nat

text \<open>
  \<^verbatim>\<open>new WebSocket(external)\<close> assigns four slots; \<^verbatim>\<open>internalOnOpen\<close> and
  \<^verbatim>\<open>internalOnError\<close> stay unassigned on a server-side connection.
  \<^verbatim>\<open>new WebSocketClient(uri)\<close> calls \<^verbatim>\<open>super(null)\<close> and assigns the two others.
\<close>

definition WebSocket_new :: "handle option \<Rightarrow> conn" where
  "WebSocket_new ext =
     \<lparr> is_client = False, external = ext,
       internalOnMessage = Noop, internalOnClose = Noop, onping = Noop, onpong = Noop,
       internalOnOpen = Undefined, internalOnError = Undefined, closures = 0 \<rparr>"

definition WebSocketClient_new :: conn where
  "WebSocketClient_new =
     (WebSocket_new None) \<lparr> is_client := True, internalOnOpen := Noop, internalOnError := Noop \<rparr>"

definition onerror_set :: "jsval \<Rightarrow> conn \<Rightarrow> conn" where
  "onerror_set f c =
     (if truthy f \<and> is_client c then c\<lparr>internalOnError := f\<rparr>
      else c\<lparr>internalOnError := Noop\<rparr>)"

text \<open>
  \<^verbatim>\<open>on(eventName, f)\<close>: a throw is \<open>Inl\<close>; nothing has been assigned when it happens, so
  the connection is as it was. Otherwise \<^verbatim>\<open>return this\<close>, the connection updated.
\<close>

definition on :: "string \<Rightarrow> jsval \<Rightarrow> conn \<Rightarrow> js_error + conn" where
  "on eventName f c =
     (if eventName = ''message'' then
        (if internalOnMessage c \<noteq> Noop then Inl (Error EE_ERROR)
         else Inr (c\<lparr>internalOnMessage := f\<rparr>))
      else if eventName = ''close'' then
        (if internalOnClose c \<noteq> Noop then Inl (Error EE_ERROR)
         else Inr (c\<lparr>internalOnClose := f\<rparr>))
      else if eventName = ''ping'' then
        (if onping c \<noteq> Noop then Inl (Error EE_ERROR)
         else Inr (c\<lparr>onping := f\<rparr>))
      else if eventName = ''pong'' then
        (if onpong c \<noteq> Noop then Inl (Error EE_ERROR)
         else Inr (c\<lparr>onpong := f\<rparr>))
      else if eventName = ''open'' then
        (if internalOnOpen c \<noteq> Noop then Inl (Error EE_ERROR)
         else Inr (c\<lparr>internalOnOpen := f\<rparr>))
      else if eventName = ''error'' \<and> is_client c then
        (if internalOnError c \<noteq> Noop then Inl (Error EE_ERROR)
         else Inr (c\<lparr>internalOnError := f\<rparr>))
      else Inr c)"

text \<open>\<^verbatim>\<open>once(eventName, f)\<close> installs a fresh closure around \<open>f\<close>; it has no \<^verbatim>\<open>'error'\<close> branch.\<close>

definition once :: "string \<Rightarrow> jsval \<Rightarrow> conn \<Rightarrow> js_error + conn" where
  "once eventName f c =
     (if eventName = ''message'' then
        (if internalOnMessage c \<noteq> Noop then Inl (Error EE_ERROR)
         else Inr (c\<lparr>internalOnMessage := OnceWrapper (closures c) ''message'' f,
                       closures := Suc (closures c)\<rparr>))
      else if eventName = ''open'' then
        (if internalOnOpen c \<noteq> Noop then Inl (Error EE_ERROR)
         else Inr (c\<lparr>internalOnOpen := OnceWrapper (closures c) ''open'' f,
                       closures := Suc (closures c)\<rparr>))
      else if eventName = ''close'' then
        (if internalOnClose c \<noteq> Noop then Inl (Error EE_ERROR)
         else Inr (c\<lparr>internalOnClose := OnceWrapper (closures c) ''close'' f,
                       closures := Suc (closures c)\<rparr>))
      else if eventName = ''ping'' then
        (if onping c \<noteq> Noop then Inl (Error EE_ERROR)
         else Inr (c\<lparr>onping := OnceWrapper (closures c) ''ping'' f,
                       closures := Suc (closures c)\<rparr>))
      else if eventName = ''pong'' then
        (if onpong c \<noteq> Noop then Inl (Error EE_ERROR)
         else Inr (c\<lparr>onpong := OnceWrapper (closures c) ''pong'' f,
                       closures := Suc (closures c)\<rparr>))
      else Inr c)"

text \<open>
  \<^verbatim>\<open>removeAllListeners(eventName)\<close>: \<^verbatim>\<open>!eventName\<close> holds for a missing argument
  (\<open>None\<close>) and for the empty string. Five independent \<^verbatim>\<open>if\<close>s, in the source's order.
\<close>

definition removeAllListeners :: "string option \<Rightarrow> conn \<Rightarrow> conn" where
  "removeAllListeners eventName c =
     (let no_name = (eventName = None \<or> eventName = Some '''');
          c1 = (if no_name \<or> eventName = Some ''message'' then c\<lparr>internalOnMessage := Noop\<rparr> else c);
          c2 = (if no_name \<or> eventName = Some ''open'' then c1\<lparr>internalOnOpen := Noop\<rparr> else c1);
          c3 = (if no_name \<or> eventName = Some ''close'' then c2\<lparr>internalOnClose := Noop\<rparr> else c2);
          c4 = (if no_name \<or> eventName = Some ''ping'' then c3\<lparr>onping := Noop\<rparr> else c3);
          c5 = (if no_name \<or> eventName = Some ''pong'' then c4\<lparr>onpong := Noop\<rparr> else c4)
      in c5)"

definition removeListener :: "string \<Rightarrow> jsval \<Rightarrow> conn \<Rightarrow> conn" where
  "removeListener eventName cb c =
     (if eventName = ''message'' \<and> internalOnMessage c = cb then c\<lparr>internalOnMessage := Noop\<rparr>
      else if eventName = ''open'' \<and> internalOnOpen c = cb then c\<lparr>internalOnOpen := Noop\<rparr>
      else if eventName = ''close'' \<and> internalOnClose c = cb then c\<lparr>internalOnClose := Noop\<rparr>
      else if eventName = ''ping'' \<and> onping c = cb then c\<lparr>onping := Noop\<rparr>
      else if eventName = ''pong'' \<and> onpong c = cb then c\<lparr>onpong := Noop\<rparr>
      else c)"

definition readyState :: "conn \<Rightarrow> nat" where
  "readyState c = (if external c \<noteq> None then OPEN else CLOSED)"

text \<open>The slot that an event name denotes (a reading aid for the statements below).\<close>

definition slot :: "string \<Rightarrow> conn \<Rightarrow> jsval" where
  "slot eventName c =
     (if eventName = ''message'' then internalOnMessage c
      else if eventName = ''close'' then internalOnClose c
      else if eventName = ''ping'' then onping c
      else if eventName = ''pong'' then onpong c
      else if eventName = ''open'' then internalOnOpen c
      else if eventName = ''error'' then internalOnError c
      else Undefined)"

subsection \<open>Calls into the engine and into user code\<close>

text \<open>
  What a method does besides changing the connection is the list of calls it makes, in
  order. The first argument of an engine call tells \<^verbatim>\<open>native.client.*\<close> (\<open>True\<close>) from
  \<^verbatim>\<open>native.server.*\<close>; the methods of the two classes differ in nothing else. The completion
  callback handed to \<^verbatim>\<open>native.*.send\<close> is either \<^verbatim>\<open>undefined\<close> or the closure
  \<^verbatim>\<open>() => { process.nextTick(cb) }\<close>, written \<open>DeferCb cb\<close>.
\<close>

datatype payload = Text string | Binary "nat list"

fun is_string :: "payload \<Rightarrow> bool" where
  "is_string (Text _) = True"
| "is_string (Binary _) = False"

text \<open>
  The \<^verbatim>\<open>options\<close> argument of \<^verbatim>\<open>send\<close>: missing or null, a function (the two-argument
  form \<^verbatim>\<open>send(message, cb)\<close>), or an object whose \<^verbatim>\<open>binary\<close> property is a boolean
  (\<open>Some b\<close>) or is not.
\<close>

datatype send_options = OptNull | OptFn jsval | OptObj "bool option"

datatype completion = DeferCb jsval

datatype call =
    NativeSend bool handle payload nat "completion option" "bool option"
  | NativeTerminate bool handle
  | NativeClose bool handle "nat option" "string option"
  | CallBack jsval js_error

datatype task = RunCb jsval | RunClose nat "nat option" "string option"

definition send :: "payload \<Rightarrow> send_options \<Rightarrow> jsval \<Rightarrow> bool option \<Rightarrow> conn \<Rightarrow> call list" where
  "send message options cb compress c =
     (case external c of
        Some ext \<Rightarrow>
          (let cb' = (case options of OptFn g \<Rightarrow> g | _ \<Rightarrow> cb);
               options' = (case options of OptFn g \<Rightarrow> OptNull | _ \<Rightarrow> options);
               binary = (case options' of OptObj (Some b) \<Rightarrow> b | _ \<Rightarrow> \<not> is_string message)
           in [NativeSend (is_client c) ext message
                 (if binary then OPCODE_BINARY else OPCODE_TEXT)
                 (if truthy cb' then Some (DeferCb cb') else None) compress])
      | None \<Rightarrow> (if truthy cb then [CallBack cb (Error ''not opened'')] else []))"

definition terminate :: "conn \<Rightarrow> call list \<times> conn" where
  "terminate c =
     (case external c of
        Some ext \<Rightarrow> ([NativeTerminate (is_client c) ext], c\<lparr>external := None\<rparr>)
      | None \<Rightarrow> ([], c))"


text \<open>
  One \<^verbatim>\<open>send\<close> seen from the caller: the engine is free to run the completion callback it
  was given before \<^verbatim>\<open>native.*.send\<close> returns (\<open>inline = True\<close>) or later. Running it is
  \<^verbatim>\<open>process.nextTick(cb)\<close>: it appends to the tick queue. The result is the user
  callbacks called before \<^verbatim>\<open>send\<close> returns and the tick queue afterwards.
\<close>

fun run_completion :: "completion \<Rightarrow> task list \<Rightarrow> task list" where
  "run_completion (DeferCb cb) q = q @ [RunCb cb]"

fun during_send :: "bool \<Rightarrow> call list \<Rightarrow> task list \<Rightarrow> (jsval \<times> js_error) list \<times> task list" where
  "during_send inline [] q = ([], q)"
| "during_send inline (NativeSend cl h m opc (Some k) z # cs) q =
     during_send inline cs (if inline then run_completion k q else q)"
| "during_send inline (CallBack f e # cs) q =
     (let (called, q') = during_send inline cs q in ((f, e) # called, q'))"
| "during_send inline (_ # cs) q = during_send inline cs q"






section \<open>The upgrade coordinator: class \<^verbatim>\<open>Server\<close>\<close>

subsection \<open>Requests, sockets, options\<close>

text \<open>
  \<open>headers\<close> maps a (lower-case) header name to its value; \<open>authorized\<close> and
  \<open>encrypted\<close> are \<^verbatim>\<open>request.connection.authorized\<close> and \<^verbatim>\<open>.encrypted\<close>, \<open>None\<close> when
  undefined; \<open>defined x\<close> is \<^verbatim>\<open>x !== undefined\<close>.
\<close>

definition defined :: "'a option \<Rightarrow> bool" where
  "defined x = (x \<noteq> None)"

record request =
  url :: string
  headers :: "string \<rightharpoonup> string"
  authorized :: "bool option"
  encrypted :: "bool option"

text \<open>
  A transport socket. \<open>sock_handle\<close> is \<^verbatim>\<open>socket._handle\<close>, \<open>parent_handle\<close> is
  \<^verbatim>\<open>socket._parent._handle\<close> (a TLS socket wraps a raw socket, its \<^verbatim>\<open>_parent\<close>), \<open>ssl\<close> is
  \<^verbatim>\<open>socket.ssl\<close>, \<open>sock_external\<close> the engine handle of a socket that is already the
  engine's (\<^verbatim>\<open>socket._isNative\<close>).
\<close>

datatype raw_handle = RawHandle (fd: int)

record socket =
  isNative :: bool
  sock_external :: "handle option"
  ssl :: "nat option"
  sock_handle :: "raw_handle option"
  parent_handle :: "raw_handle option"

text \<open>
  The callback of \<^verbatim>\<open>handleUpgrade\<close>: the module's \<^verbatim>\<open>emitConnection\<close> or a function of
  the caller's; as an argument \<open>None\<close> is a missing callback, and in the Server's
  \<^verbatim>\<open>_upgradeCallback\<close> it is \<^verbatim>\<open>noop\<close> (\<^verbatim>\<open>callback ? callback : noop\<close>).
\<close>

datatype upgrade_cb = EmitConnection | UserCallback nat

datatype jsarg = ArgUndefined | ArgNum nat | ArgStr string

record info =
  origin :: "string option"
  secure :: bool
  req :: request

text \<open>
  \<^verbatim>\<open>options.verifyClient\<close>: a predicate of two parameters (\<^verbatim>\<open>.length === 2\<close>) is given a
  callback and answers through it with \<^verbatim>\<open>(result, code, name)\<close>; any other is called with
  \<open>info\<close> alone and answers by its return value.
\<close>

datatype verifier =
    SyncVerifier "info \<Rightarrow> bool"
  | AsyncVerifier "info \<Rightarrow> bool \<times> jsarg \<times> jsarg"

text \<open>
  The listeners on the http server that matter here: this Server's three, the default
  request listener of \<^verbatim>\<open>http.createServer\<close>, and anybody else's.
\<close>

datatype listener =
    ErrorForwarder | NewListenerHook | UpgradeListener | DefaultResponder | Foreign nat

type_synonym emitter = "(string \<times> listener) list"

datatype deflate = DeflateFalse | DeflateTrue | DeflateObj "bool option"

record options =
  opt_port :: "nat option"
  opt_host :: "string option"
  opt_server :: "emitter option"
  opt_noServer :: bool
  opt_path :: "string option"
  opt_perMessageDeflate :: "deflate option"
  opt_maxPayload :: "nat option"
  opt_noDelay :: "bool option"
  opt_verifyClient :: "verifier option"

record server =
  serverGroup :: "nat option"
  upgradeCallback :: "upgrade_cb option"
  upgradeListener :: "listener option"
  noDelay :: bool
  lastUpgradeListener :: bool
  passedHttpServer :: bool
  httpServer :: bool

text \<open>
  What the module needs from outside: the engine's answers, and the binding (if any) of
  the name \<^verbatim>\<open>secKey\<close> on the global object. The module declares \<^verbatim>\<open>secKey\<close> only as a
  \<^verbatim>\<open>const\<close> inside the \<^verbatim>\<open>else\<close> block of \<^verbatim>\<open>handleUpgrade\<close>.
\<close>

datatype transfer_arg = ByHandle raw_handle | ByFd int

record env =
  native_transfer :: "transfer_arg \<Rightarrow> nat option \<Rightarrow> nat"
  native_getSSLContext :: "nat \<Rightarrow> nat"
  native_group_create :: "nat \<Rightarrow> nat \<Rightarrow> nat"
  global_secKey :: "string option"

datatype ticket = Ticket nat | External "handle option"

datatype pending = PendingUpgrade request nat string "upgrade_cb option"

datatype srv_call =
    SocketOn string
  | SocketEnd string
  | SocketSetNoDelay bool
  | SocketOnClose pending
  | SocketDestroy
  | GetSSLContext nat
  | NativeTransfer transfer_arg "nat option"
  | NativeUpgrade nat ticket "string option" "string option" "string option"
  | GroupCreate nat nat
  | GroupClose nat
  | HttpListen nat "string option"
  | HttpRemoveListener string listener
  | HttpClose
  | SetTimeout jsval nat

text \<open>
  The result of running a piece of the coordinator: the Server afterwards, the module's
  \<^verbatim>\<open>_upgradeReq\<close>, the calls made, and the exception that ended it, if one did.
\<close>

record outcome =
  srv :: server
  upgradeReq :: "request option"
  calls :: "srv_call list"
  thrown :: "js_error option"

subsection \<open>\<^verbatim>\<open>abortConnection\<close>\<close>

text \<open>The decimal text of a number, as string concatenation produces it.\<close>

definition digit :: "nat \<Rightarrow> char" where
  "digit n = ''0123456789'' ! n"

fun show_nat :: "nat \<Rightarrow> string" where
  "show_nat n = (if n < 10 then [digit n] else show_nat (n div 10) @ [digit (n mod 10)])"

text \<open>String concatenation turns \<^verbatim>\<open>undefined\<close> into the text \<^verbatim>\<open>undefined\<close>.\<close>

fun to_string :: "jsarg \<Rightarrow> string" where
  "to_string ArgUndefined = ''undefined''"
| "to_string (ArgNum n) = show_nat n"
| "to_string (ArgStr s) = s"

definition CRLF :: string where
  "CRLF = [CHR 0x0D, CHR 0x0A]"

definition abortConnection :: "jsarg \<Rightarrow> jsarg \<Rightarrow> srv_call list" where
  "abortConnection code name =
     [SocketEnd (''HTTP/1.1 '' @ to_string code @ '' '' @ to_string name @ CRLF @ CRLF)]"

subsection \<open>\<^verbatim>\<open>handleUpgrade\<close>\<close>

text \<open>
  The branch for a socket of the engine's reads the name \<^verbatim>\<open>secKey\<close>, which is not in
  scope there: it resolves to the global object's binding, and reading a name with no
  binding throws a ReferenceError. The arguments of \<^verbatim>\<open>native.upgrade\<close> are evaluated
  before the call, after the two assignments, which therefore stay.

  In the other branch \<^verbatim>\<open>native.getSSLContext\<close> is called for a TLS socket, then the
  three-part test decides; \<^verbatim>\<open>socket.destroy()\<close> is reached in either case.
\<close>

definition handleUpgrade ::
  "env \<Rightarrow> request \<Rightarrow> socket \<Rightarrow> upgrade_cb option \<Rightarrow> server \<Rightarrow> request option \<Rightarrow> outcome" where
  "handleUpgrade e request socket callback s ur =
     (if isNative socket then
        (case serverGroup s of
           Some g \<Rightarrow>
             (let s' = s\<lparr>upgradeCallback := callback\<rparr> in
              case global_secKey e of
                None \<Rightarrow>
                  \<lparr> srv = s', upgradeReq = Some request, calls = [],
                    thrown = Some (ReferenceError ''secKey is not defined'') \<rparr>
              | Some k \<Rightarrow>
                  \<lparr> srv = s', upgradeReq = Some request,
                    calls = [NativeUpgrade g (External (sock_external socket)) (Some k)
                               (headers request ''sec-websocket-extensions'')
                               (headers request ''sec-websocket-protocol'')],
                    thrown = None \<rparr>)
         | None \<Rightarrow> \<lparr> srv = s, upgradeReq = ur, calls = [], thrown = None \<rparr>)
      else
        (let secKey = headers request ''sec-websocket-key'';
             socketHandle = (if ssl socket \<noteq> None then parent_handle socket else sock_handle socket);
             ssl_calls = (case ssl socket of Some x \<Rightarrow> [GetSSLContext x] | None \<Rightarrow> []);
             sslState = map_option (native_getSSLContext e) (ssl socket);
             transfer_calls =
               (case (socketHandle, secKey) of
                  (Some sh, Some k) \<Rightarrow>
                    (if k \<noteq> [] \<and> length k = 24 then
                       (let arg = (if fd sh = - 1 then ByHandle sh else ByFd (fd sh));
                            ticket = native_transfer e arg sslState
                        in [SocketSetNoDelay (noDelay s), NativeTransfer arg sslState,
                            SocketOnClose (PendingUpgrade request ticket k callback)])
                     else [])
                | _ \<Rightarrow> [])
         in \<lparr> srv = s, upgradeReq = ur,
              calls = ssl_calls @ transfer_calls @ [SocketDestroy], thrown = None \<rparr>))"

text \<open>The closure registered on the socket's \<^verbatim>\<open>'close'\<close> event, when it runs.\<close>

fun on_socket_close :: "pending \<Rightarrow> server \<Rightarrow> request option \<Rightarrow> outcome" where
  "on_socket_close (PendingUpgrade request ticket secKey callback) s ur =
     (case serverGroup s of
        Some g \<Rightarrow>
          \<lparr> srv = s\<lparr>upgradeCallback := callback\<rparr>, upgradeReq = Some request,
            calls = [NativeUpgrade g (Ticket ticket) (Some secKey)
                       (headers request ''sec-websocket-extensions'')
                       (headers request ''sec-websocket-protocol'')],
            thrown = None \<rparr>
      | None \<Rightarrow> \<lparr> srv = s, upgradeReq = ur, calls = [], thrown = None \<rparr>)"

subsection \<open>The constructor and its listeners on the http server\<close>

text \<open>
  The http server is an EventEmitter of the platform's. Its \<^verbatim>\<open>on(eventName, listener)\<close>
  first emits \<^verbatim>\<open>'newListener'\<close> with \<^verbatim>\<open>(eventName, listener)\<close> to the listeners already
  registered for \<^verbatim>\<open>'newListener'\<close>, then appends the new listener. Of the listeners
  modelled, only this Server's hook reacts to \<^verbatim>\<open>'newListener'\<close>.
\<close>

fun run_newListener :: "listener \<Rightarrow> string \<Rightarrow> server \<Rightarrow> server" where
  "run_newListener NewListenerHook eventName s =
     (if eventName = ''upgrade'' then s\<lparr>lastUpgradeListener := False\<rparr> else s)"
| "run_newListener _ eventName s = s"

fun emit_newListener :: "emitter \<Rightarrow> string \<Rightarrow> server \<Rightarrow> server" where
  "emit_newListener [] eventName s = s"
| "emit_newListener ((ev, l) # ls) eventName s =
     emit_newListener ls eventName (if ev = ''newListener'' then run_newListener l eventName s else s)"

definition emitter_on :: "string \<Rightarrow> listener \<Rightarrow> server \<times> emitter \<Rightarrow> server \<times> emitter" where
  "emitter_on eventName l = (\<lambda>(s, em). (emit_newListener em eventName s, em @ [(eventName, l)]))"

definition nativeOptions_of :: "deflate option \<Rightarrow> nat" where
  "nativeOptions_of d =
     (let n0 = 0;
          enabled = (d \<noteq> None \<and> d \<noteq> Some DeflateFalse);
          n1 = (if enabled then n0 OR PERMESSAGE_DEFLATE else n0);
          n2 = (if enabled \<and> d = Some (DeflateObj (Some False))
                then n1 OR SLIDING_DEFLATE_WINDOW else n1)
      in n2)"

definition path_set :: "string option \<Rightarrow> bool" where
  "path_set p = (case p of None \<Rightarrow> False | Some x \<Rightarrow> x \<noteq> [])"

definition normalize_path :: "string option \<Rightarrow> string option" where
  "normalize_path p =
     (case p of
        None \<Rightarrow> None
      | Some x \<Rightarrow> (if x \<noteq> [] \<and> hd x \<noteq> CHR ''/'' then Some (CHR ''/'' # x) else Some x))"

text \<open>
  \<^verbatim>\<open>new Server(options, callback)\<close>: the Server, the options object as the constructor
  leaves it (the listener closes over it), the http server's listeners, and the calls.
  With \<^verbatim>\<open>noServer\<close> and a port, \<^verbatim>\<open>this.httpServer\<close> is undefined where \<^verbatim>\<open>listen\<close> is
  called on it.
\<close>

definition Server_new ::
  "env \<Rightarrow> options option \<Rightarrow> js_error + (server \<times> options \<times> emitter \<times> srv_call list)" where
  "Server_new e options =
     (case options of
        None \<Rightarrow> Inl (TypeError ''missing options'')
      | Some opts \<Rightarrow>
          if opt_port opts = None \<and> opt_server opts = None \<and> \<not> opt_noServer opts
          then Inl (TypeError ''invalid options'')
          else
            (let nativeOptions = nativeOptions_of (opt_perMessageDeflate opts);
                 maxPayload = (case opt_maxPayload opts of None \<Rightarrow> DEFAULT_PAYLOAD_LIMIT | Some m \<Rightarrow> m);
                 s0 = \<lparr> serverGroup = Some (native_group_create e nativeOptions maxPayload),
                        upgradeCallback = None, upgradeListener = None,
                        noDelay = (case opt_noDelay opts of None \<Rightarrow> True | Some b \<Rightarrow> b),
                        lastUpgradeListener = True,
                        passedHttpServer = (opt_server opts \<noteq> None),
                        httpServer = False \<rparr>;
                 (s1, opts1, em1) =
                   (if \<not> opt_noServer opts then
                      (let em0 = (case opt_server opts of Some em \<Rightarrow> em
                                  | None \<Rightarrow> [(''request'', DefaultResponder)]);
                           o1 = opts\<lparr>opt_path := normalize_path (opt_path opts)\<rparr>;
                           (sa, ema) = emitter_on ''error'' ErrorForwarder (s0\<lparr>httpServer := True\<rparr>, em0);
                           (sb, emb) = emitter_on ''newListener'' NewListenerHook (sa, ema);
                           (sc, emc) = emitter_on ''upgrade'' UpgradeListener
                                         (sb\<lparr>upgradeListener := Some UpgradeListener\<rparr>, emb)
                       in (sc, o1, emc))
                    else (s0, opts, []));
                 created = [GroupCreate nativeOptions maxPayload]
             in case opt_port opts of
                  None \<Rightarrow> Inr (s1, opts1, em1, created)
                | Some p \<Rightarrow>
                    if httpServer s1
                    then Inr (s1, opts1, em1, created @
                           [HttpListen p (case opt_host opts of None \<Rightarrow> None
                                          | Some h \<Rightarrow> if h \<noteq> [] then Some h else None)])
                    else Inl (TypeError ''Cannot read property listen of undefined'')))"

text \<open>\<^verbatim>\<open>request.url.split('?')[0].split('#')[0]\<close>\<close>

definition url_path :: "string \<Rightarrow> string" where
  "url_path u = takeWhile (\<lambda>c. c \<noteq> CHR ''#'') (takeWhile (\<lambda>c. c \<noteq> CHR ''?'') u)"

text \<open>\<^verbatim>\<open>!options.path || options.path == request.url.split('?')[0].split('#')[0]\<close>\<close>

definition path_accepted :: "options \<Rightarrow> request \<Rightarrow> bool" where
  "path_accepted opts request =
     (\<not> path_set (opt_path opts) \<or> opt_path opts = Some (url_path (url request)))"

definition with_calls :: "srv_call list \<Rightarrow> outcome \<Rightarrow> outcome" where
  "with_calls pre r = r\<lparr>calls := pre @ calls r\<rparr>"

text \<open>
  The \<^verbatim>\<open>'upgrade'\<close> listener. An asynchronous predicate is represented by the arguments
  it gives its callback, and the callback's body is run with them.
\<close>

definition upgradeListener_run ::
  "env \<Rightarrow> options \<Rightarrow> request \<Rightarrow> socket \<Rightarrow> server \<Rightarrow> request option \<Rightarrow> outcome" where
  "upgradeListener_run e opts request socket s ur =
     (let pre = [SocketOn ''error'', SocketOn ''_tlsError''];
          same = \<lparr> srv = s, upgradeReq = ur, calls = pre, thrown = None \<rparr>
      in
      if path_accepted opts request then
        (case opt_verifyClient opts of
           Some v \<Rightarrow>
             (let info = \<lparr> origin = headers request ''origin'',
                           secure = (defined (authorized request) \<or> defined (encrypted request)),
                           req = request \<rparr>
              in case v of
                   AsyncVerifier p \<Rightarrow>
                     (case p info of
                        (result, code, name) \<Rightarrow>
                          if result
                          then with_calls pre (handleUpgrade e request socket (Some EmitConnection) s ur)
                          else same\<lparr>calls := pre @ abortConnection code name\<rparr>)
                 | SyncVerifier p \<Rightarrow>
                     if p info
                     then with_calls pre (handleUpgrade e request socket (Some EmitConnection) s ur)
                     else same\<lparr>calls := pre @ abortConnection (ArgNum 400)
                                              (ArgStr ''Client verification failed'')\<rparr>)
         | None \<Rightarrow> with_calls pre (handleUpgrade e request socket (Some EmitConnection) s ur))
      else if lastUpgradeListener s then
        same\<lparr>calls := pre @ abortConnection (ArgNum 400) (ArgStr ''URL not supported'')\<rparr>
      else same)"

subsection \<open>\<^verbatim>\<open>Server.close\<close>\<close>

definition Server_close :: "jsval \<Rightarrow> server \<Rightarrow> srv_call list \<times> server" where
  "Server_close cb s =
     (let http_calls =
            (case upgradeListener s of
               Some l \<Rightarrow>
                 (if httpServer s
                  then HttpRemoveListener ''upgrade'' l # (if \<not> passedHttpServer s then [HttpClose] else [])
                  else [])
             | None \<Rightarrow> []);
          (group_calls, s') =
            (case serverGroup s of
               Some g \<Rightarrow> ([GroupClose g], s\<lparr>serverGroup := None\<rparr>)
             | None \<Rightarrow> ([], s));
          timer_calls = (if truthy cb then [SetTimeout cb 20000] else [])
      in (http_calls @ group_calls @ timer_calls, s'))"

fun is_GroupClose :: "srv_call \<Rightarrow> bool" where
  "is_GroupClose (GroupClose g) = True"
| "is_GroupClose _ = False"

section \<open>The event bridge: disconnection\<close>

text \<open>
  The objects the engine and the tick queue refer to: Connections by reference in
  \<open>heap\<close>, the engine's association of a handle with its Connection in \<open>userData\<close>, the
  \<^verbatim>\<open>process.nextTick\<close> queue, and the calls of user functions made so far, each with the
  \<^verbatim>\<open>readyState\<close> its connection has when the call is made.
\<close>

datatype arg = ACode "nat option" | AMessage "string option"

datatype event = HandlerCalled nat "arg list" nat | CallbackCalled jsval

record world =
  heap :: "nat \<rightharpoonup> conn"
  userData :: "handle \<rightharpoonup> nat"
  tickQueue :: "task list"
  delivered :: "event list"

text \<open>
  The handler of both \<^verbatim>\<open>native.client.group.onDisconnection\<close> and
  \<^verbatim>\<open>native.server.group.onDisconnection\<close> (the two bodies are the same). Assigning to a
  property of a missing \<^verbatim>\<open>webSocket\<close> throws.
\<close>

definition onDisconnection ::
  "handle \<Rightarrow> nat option \<Rightarrow> string option \<Rightarrow> nat \<Rightarrow> world \<Rightarrow> js_error + world" where
  "onDisconnection ext code message webSocket w =
     (case heap w webSocket of
        None \<Rightarrow> Inl (TypeError ''Cannot set property external of undefined'')
      | Some c \<Rightarrow>
          Inr (w\<lparr> heap := (heap w)(webSocket \<mapsto> c\<lparr>external := None\<rparr>),
                  tickQueue := tickQueue w @ [RunClose webSocket code message],
                  userData := (userData w)(ext := None) \<rparr>))"

definition set_slot :: "string \<Rightarrow> jsval \<Rightarrow> conn \<Rightarrow> conn" where
  "set_slot eventName v c =
     (if eventName = ''message'' then c\<lparr>internalOnMessage := v\<rparr>
      else if eventName = ''open'' then c\<lparr>internalOnOpen := v\<rparr>
      else if eventName = ''close'' then c\<lparr>internalOnClose := v\<rparr>
      else if eventName = ''ping'' then c\<lparr>onping := v\<rparr>
      else if eventName = ''pong'' then c\<lparr>onpong := v\<rparr>
      else c)"

text \<open>
  What a closure of \<^verbatim>\<open>once\<close> passes on to \<open>f\<close>: both arguments for \<^verbatim>\<open>'close'\<close>, the first
  for \<^verbatim>\<open>'message'\<close>, none for the others.
\<close>

definition once_args :: "string \<Rightarrow> arg list \<Rightarrow> arg list" where
  "once_args eventName args =
     (if eventName = ''close'' then take 2 args
      else if eventName = ''message'' then take 1 args
      else [])"

text \<open>
  Calling the value in a slot: \<^verbatim>\<open>noop\<close> does nothing, a closure of \<^verbatim>\<open>once\<close> resets its
  slot and calls \<open>f\<close>, a user function is recorded, \<^verbatim>\<open>undefined\<close> is not callable.
\<close>

fun invoke :: "jsval \<Rightarrow> arg list \<Rightarrow> conn \<Rightarrow> js_error + (conn \<times> event list)" where
  "invoke Undefined args c = Inl (TypeError ''not a function'')"
| "invoke Noop args c = Inr (c, [])"
| "invoke (UserFn k) args c = Inr (c, [HandlerCalled k args (readyState c)])"
| "invoke (OnceWrapper i ev f) args c = invoke f (once_args ev args) (set_slot ev Noop c)"

text \<open>A value that can be called through to the end: not \<^verbatim>\<open>undefined\<close>, nor a closure around it.\<close>

fun callable :: "jsval \<Rightarrow> bool" where
  "callable Undefined = False"
| "callable Noop = True"
| "callable (UserFn k) = True"
| "callable (OnceWrapper i ev f) = callable f"

fun run_task :: "task \<Rightarrow> world \<Rightarrow> js_error + world" where
  "run_task (RunCb cb) w = Inr (w\<lparr>delivered := delivered w @ [CallbackCalled cb]\<rparr>)"
| "run_task (RunClose webSocket code message) w =
     (case heap w webSocket of
        None \<Rightarrow> Inl (TypeError ''Cannot read property internalOnClose of undefined'')
      | Some c \<Rightarrow>
          (case invoke (internalOnClose c) [ACode code, AMessage message] c of
             Inl err \<Rightarrow> Inl err
           | Inr (c', evs) \<Rightarrow>
               Inr (w\<lparr> heap := (heap w)(webSocket \<mapsto> c'), delivered := delivered w @ evs \<rparr>)))"



section \<open>Properties of the Connection\<close>






text \<open>
  Claim C2, as the code has it. On an open connection no user callback is called while
  \<^verbatim>\<open>send\<close> runs, whether or not the engine runs the completion callback it was handed
  before returning: running it only queues \<open>cb\<close> (or, in the two-argument form, the
  function passed as \<open>options\<close>) for the next tick. On a closed connection a callback
  passed as \<open>cb\<close> is called inside \<^verbatim>\<open>send\<close>, with the error \<^verbatim>\<open>not opened\<close>.
\<close>

theorem send_callback_timing:
  "(external c = Some h \<longrightarrow>
      during_send inline (send message options cb compress c) q =
        ([], if inline \<and> truthy (case options of OptFn g \<Rightarrow> g | _ \<Rightarrow> cb)
             then q @ [RunCb (case options of OptFn g \<Rightarrow> g | _ \<Rightarrow> cb)] else q)) \<and>
   (external c = None \<and> truthy cb \<longrightarrow>
      during_send inline (send message options cb compress c) q =
        ([(cb, Error ''not opened'')], q))"
  by (auto simp: send_def Let_def split: send_options.splits option.splits)

theorem send_callback_timing_witness:
  "during_send True (send (Text ''hi'') OptNull (UserFn 1) None (WebSocket_new (Some 7))) [] =
     ([], [RunCb (UserFn 1)]) \<and>
   during_send True (send (Text ''hi'') OptNull (UserFn 1) None (WebSocket_new None)) [] =
     ([(UserFn 1, Error ''not opened'')], [])"
  using send_callback_timing
      [of "WebSocket_new (Some 7)" 7 True "Text ''hi''" OptNull "UserFn 1" None "[]"]
    send_callback_timing
      [of "WebSocket_new None" 7 True "Text ''hi''" OptNull "UserFn 1" None "[]"]
  by (simp add: WebSocket_new_def)

text \<open>
  Claim C2 as stated fails on the closed path: after \<^verbatim>\<open>terminate()\<close>, the callback of a
  \<^verbatim>\<open>send\<close> is among the functions called before \<^verbatim>\<open>send\<close> returns.
\<close>

theorem send_closed_callback_counterexample:
  "fst (during_send False
         (send (Text ''hi'') OptNull (UserFn 1) None (snd (terminate (WebSocket_new (Some 7))))) [])
   = [(UserFn 1, Error ''not opened'')]"
  by (simp add: send_def terminate_def WebSocket_new_def)

text \<open>
  For each of the events message, close, ping, pong and open, \<^verbatim>\<open>on\<close> and \<^verbatim>\<open>once\<close> throw
  the duplicate-listener error, changing nothing, whenever the event's slot holds
  anything but \<^verbatim>\<open>noop\<close>; on a client \<^verbatim>\<open>on('error', f)\<close> does the same. After
  \<^verbatim>\<open>removeAllListeners()\<close>, \<^verbatim>\<open>removeAllListeners(event)\<close> or \<^verbatim>\<open>removeListener(event, h)\<close>
  with \<open>h\<close> the value in the slot, for one of the five events, \<^verbatim>\<open>on(event, f)\<close> succeeds
  and the slot holds \<open>f\<close>.
\<close>

lemma duplicate_listener:
  assumes "ev \<in> {''message'', ''close'', ''ping'', ''pong'', ''open''}"
  shows "(slot ev c \<noteq> Noop \<longrightarrow>
            on ev f c = Inl (Error EE_ERROR) \<and> once ev f c = Inl (Error EE_ERROR)) \<and>
         (is_client c \<and> slot ''error'' c \<noteq> Noop \<longrightarrow> on ''error'' f c = Inl (Error EE_ERROR)) \<and>
         (c' \<in> {removeAllListeners None c, removeAllListeners (Some ev) c,
                 removeListener ev (slot ev c) c} \<longrightarrow>
            (\<exists>c''. on ev f c' = Inr c'' \<and> slot ev c'' = f))"
  using assms
  by (auto simp: slot_def on_def once_def removeAllListeners_def removeListener_def Let_def)

lemma duplicate_listener_example:
  "on ''close'' (UserFn 2) ((WebSocket_new (Some 7))\<lparr>internalOnClose := UserFn 1\<rparr>) =
     Inl (Error EE_ERROR) \<and>
   once ''close'' (UserFn 2) ((WebSocket_new (Some 7))\<lparr>internalOnClose := UserFn 1\<rparr>) =
     Inl (Error EE_ERROR) \<and>
   (\<exists>c''. on ''close'' (UserFn 2)
            (removeListener ''close'' (UserFn 1)
               ((WebSocket_new (Some 7))\<lparr>internalOnClose := UserFn 1\<rparr>)) = Inr c'' \<and>
          slot ''close'' c'' = UserFn 2)"
  using duplicate_listener
      [of "''close''" "(WebSocket_new (Some 7))\<lparr>internalOnClose := UserFn 1\<rparr>" "UserFn 2"
          "removeListener ''close'' (UserFn 1)
             ((WebSocket_new (Some 7))\<lparr>internalOnClose := UserFn 1\<rparr>)"]
  by (simp add: slot_def)

text \<open>
  Claim C3 does not hold of the code for the event \<^verbatim>\<open>'error'\<close>, which \<^verbatim>\<open>on\<close> supports on
  a client and \<^verbatim>\<open>once\<close>, \<^verbatim>\<open>removeListener\<close> and \<^verbatim>\<open>removeAllListeners\<close> leave out. On a
  client whose error slot holds a handler installed by \<^verbatim>\<open>on\<close>, a second \<^verbatim>\<open>on('error', f)\<close>
  throws the duplicate-listener error, but \<^verbatim>\<open>once('error', f)\<close> returns the connection
  and throws nothing; and after \<^verbatim>\<open>removeAllListeners()\<close>, \<^verbatim>\<open>removeAllListeners('error')\<close>
  or \<^verbatim>\<open>removeListener('error', h)\<close> with \<open>h\<close> the installed handler, the slot still holds
  \<open>h\<close> and \<^verbatim>\<open>on('error', f)\<close> still throws.
\<close>

theorem once_error_not_rejected:
  "on ''error'' (UserFn 1) WebSocketClient_new =
     Inr (WebSocketClient_new\<lparr>internalOnError := UserFn 1\<rparr>) \<and>
   slot ''error'' (WebSocketClient_new\<lparr>internalOnError := UserFn 1\<rparr>) \<noteq> Noop \<and>
   on ''error'' (UserFn 2) (WebSocketClient_new\<lparr>internalOnError := UserFn 1\<rparr>) =
     Inl (Error EE_ERROR) \<and>
   once ''error'' (UserFn 2) (WebSocketClient_new\<lparr>internalOnError := UserFn 1\<rparr>) =
     Inr (WebSocketClient_new\<lparr>internalOnError := UserFn 1\<rparr>) \<and>
   on ''error'' (UserFn 2)
     (removeAllListeners None (WebSocketClient_new\<lparr>internalOnError := UserFn 1\<rparr>)) =
     Inl (Error EE_ERROR) \<and>
   on ''error'' (UserFn 2)
     (removeAllListeners (Some ''error'') (WebSocketClient_new\<lparr>internalOnError := UserFn 1\<rparr>)) =
     Inl (Error EE_ERROR) \<and>
   on ''error'' (UserFn 2)
     (removeListener ''error'' (UserFn 1) (WebSocketClient_new\<lparr>internalOnError := UserFn 1\<rparr>)) =
     Inl (Error EE_ERROR)"
  by (simp add: on_def once_def slot_def removeAllListeners_def removeListener_def
      WebSocketClient_new_def WebSocket_new_def)

text \<open>
  Claim C10. On a server-side connection \<^verbatim>\<open>on('error', f)\<close> and \<^verbatim>\<open>once('error', f)\<close>
  return the connection as it is, for every \<open>f\<close> and whatever the slots hold: nothing is
  registered and nothing is thrown. The \<^verbatim>\<open>onerror\<close> setter leaves \<^verbatim>\<open>noop\<close> in the slot.
\<close>

theorem server_error_registration_inert:
  "\<not> is_client c \<Longrightarrow>
     on ''error'' f c = Inr c \<and> once ''error'' f c = Inr c \<and>
     internalOnError (onerror_set f c) = Noop"
  by (simp add: on_def once_def onerror_set_def)

theorem server_error_registration_inert_witness:
  "on ''error'' (UserFn 1) (WebSocket_new (Some 7)) = Inr (WebSocket_new (Some 7)) \<and>
   once ''error'' (UserFn 1) (WebSocket_new (Some 7)) = Inr (WebSocket_new (Some 7)) \<and>
   internalOnError (onerror_set (UserFn 1) (WebSocket_new (Some 7))) = Noop"
  using server_error_registration_inert [of "WebSocket_new (Some 7)" "UserFn 1"]
  by (simp add: WebSocket_new_def)

section \<open>Properties of the upgrade coordinator\<close>

text \<open>
  Claim C4. A socket that is not the engine's, with a request whose
  \<^verbatim>\<open>sec-websocket-key\<close> header is missing or not 24 characters long, or with no socket
  handle: \<^verbatim>\<open>handleUpgrade\<close> destroys the socket and does nothing else but read the TLS
  context of a TLS socket. It writes no response, calls neither \<^verbatim>\<open>native.transfer\<close>
  nor \<^verbatim>\<open>native.upgrade\<close>, registers no closure that would, throws nothing, and leaves the
  Server and \<^verbatim>\<open>_upgradeReq\<close> as they were.
\<close>

theorem handleUpgrade_invalid_destroys:
  assumes "\<not> isNative socket"
    and "headers request ''sec-websocket-key'' = None \<or>
         (\<exists>k. headers request ''sec-websocket-key'' = Some k \<and> length k \<noteq> 24) \<or>
         (if ssl socket \<noteq> None then parent_handle socket else sock_handle socket) = None"
  shows "handleUpgrade e request socket callback s ur =
           \<lparr> srv = s, upgradeReq = ur,
             calls = (case ssl socket of Some x \<Rightarrow> [GetSSLContext x] | None \<Rightarrow> []) @ [SocketDestroy],
             thrown = None \<rparr>"
proof (cases "ssl socket")
  case None
  then show ?thesis
    using assms by (auto simp: handleUpgrade_def Let_def split: option.splits)
next
  case (Some x)
  then show ?thesis
    using assms by (auto simp: handleUpgrade_def Let_def split: option.splits)
qed

text \<open>A plain socket with a handle, and a key of 23 characters.\<close>

theorem handleUpgrade_invalid_destroys_witness:
  "calls (handleUpgrade
            \<lparr> native_transfer = (\<lambda>a t. 0), native_getSSLContext = (\<lambda>x. x),
              native_group_create = (\<lambda>a b. 1), global_secKey = None \<rparr>
            \<lparr> url = ''/ws'', headers = [''sec-websocket-key'' \<mapsto> ''dGhlIHNhbXBsZSBub25jZQ=''],
              authorized = None, encrypted = None \<rparr>
            \<lparr> isNative = False, sock_external = None, ssl = None,
              sock_handle = Some (RawHandle 12), parent_handle = None \<rparr>
            (Some EmitConnection)
            \<lparr> serverGroup = Some 1, upgradeCallback = None,
              upgradeListener = Some UpgradeListener, noDelay = True,
              lastUpgradeListener = False, passedHttpServer = False, httpServer = True \<rparr>
            None)
   = [SocketDestroy]"
  using handleUpgrade_invalid_destroys
      [where socket = "\<lparr> isNative = False, sock_external = None, ssl = None,
                         sock_handle = Some (RawHandle 12), parent_handle = None \<rparr>"
         and request = "\<lparr> url = ''/ws'',
                          headers = [''sec-websocket-key'' \<mapsto> ''dGhlIHNhbXBsZSBub25jZQ=''],
                          authorized = None, encrypted = None \<rparr>"
         and e = "\<lparr> native_transfer = (\<lambda>a t. 0), native_getSSLContext = (\<lambda>x. x),
                    native_group_create = (\<lambda>a b. 1), global_secKey = None \<rparr>"
         and callback = "Some EmitConnection"
         and s = "\<lparr> serverGroup = Some 1, upgradeCallback = None,
                    upgradeListener = Some UpgradeListener, noDelay = True,
                    lastUpgradeListener = False, passedHttpServer = False, httpServer = True \<rparr>"
         and ur = None]
  by simp

text \<open>
  With a valid key and a handle the same socket is handed over: the transfer is made and
  the upgrade is left to the socket's \<^verbatim>\<open>'close'\<close> event.
\<close>

lemma handleUpgrade_valid_transfers:
  assumes "\<not> isNative socket" and "ssl socket = None"
    and "sock_handle socket = Some sh" and "fd sh \<noteq> - 1"
    and "headers request ''sec-websocket-key'' = Some k" and "length k = 24"
  shows "calls (handleUpgrade e request socket callback s ur) =
           [SocketSetNoDelay (noDelay s), NativeTransfer (ByFd (fd sh)) None,
            SocketOnClose (PendingUpgrade request (native_transfer e (ByFd (fd sh)) None) k callback),
            SocketDestroy]"
  using assms by (auto simp: handleUpgrade_def Let_def)

text \<open>
  Claim C9 does not hold of the code. For a socket of the engine's and an open group, with
  no global binding of \<^verbatim>\<open>secKey\<close> (the module makes none), \<^verbatim>\<open>handleUpgrade\<close> records the
  request and installs the callback, then throws a ReferenceError while evaluating the
  arguments of \<^verbatim>\<open>native.upgrade\<close>, which is not called.
\<close>

lemma handleUpgrade_native_unbound:
  assumes "isNative socket" and "serverGroup s = Some g" and "global_secKey e = None"
  shows "handleUpgrade e request socket callback s ur =
           \<lparr> srv = s\<lparr>upgradeCallback := callback\<rparr>, upgradeReq = Some request, calls = [],
             thrown = Some (ReferenceError ''secKey is not defined'') \<rparr>"
  using assms by (simp add: handleUpgrade_def)

theorem handleUpgrade_native_throws:
  "handleUpgrade
     \<lparr> native_transfer = (\<lambda>a t. 0), native_getSSLContext = (\<lambda>x. x),
       native_group_create = (\<lambda>a b. 1), global_secKey = None \<rparr>
     \<lparr> url = ''/ws'', headers = [''sec-websocket-key'' \<mapsto> ''dGhlIHNhbXBsZSBub25jZQ==''],
       authorized = None, encrypted = None \<rparr>
     \<lparr> isNative = True, sock_external = Some 5, ssl = None, sock_handle = None,
       parent_handle = None \<rparr>
     (Some (UserCallback 0))
     \<lparr> serverGroup = Some 1, upgradeCallback = None, upgradeListener = None, noDelay = True,
       lastUpgradeListener = True, passedHttpServer = False, httpServer = False \<rparr>
     None
   = \<lparr> srv = \<lparr> serverGroup = Some 1, upgradeCallback = Some (UserCallback 0),
               upgradeListener = None, noDelay = True, lastUpgradeListener = True,
               passedHttpServer = False, httpServer = False \<rparr>,
       upgradeReq = Some \<lparr> url = ''/ws'',
                            headers = [''sec-websocket-key'' \<mapsto> ''dGhlIHNhbXBsZSBub25jZQ==''],
                            authorized = None, encrypted = None \<rparr>,
       calls = [],
       thrown = Some (ReferenceError ''secKey is not defined'') \<rparr>"
  by (simp add: handleUpgrade_def)

subsection \<open>The path filter and the last-listener flag\<close>

text \<open>
  Once the flag is false no registration makes it true again, and a registration for
  \<^verbatim>\<open>'upgrade'\<close> on an emitter that carries the hook makes it false.
\<close>

lemma emit_newListener_keeps_False:
  "\<not> lastUpgradeListener s \<Longrightarrow> \<not> lastUpgradeListener (emit_newListener em ev s)"
proof (induction em arbitrary: s)
  case Nil
  then show ?case by simp
next
  case (Cons x em)
  obtain a l where x: "x = (a, l)" by (cases x)
  have "\<not> lastUpgradeListener (run_newListener l ev s)"
    using Cons.prems by (cases l) simp_all
  then show ?case using Cons x by simp
qed

lemma emit_newListener_hook:
  "(''newListener'', NewListenerHook) \<in> set em \<Longrightarrow>
     \<not> lastUpgradeListener (emit_newListener em ''upgrade'' s)"
proof (induction em arbitrary: s)
  case Nil
  then show ?case by simp
next
  case (Cons x em)
  show ?case
  proof (cases "x = (''newListener'', NewListenerHook)")
    case True
    then show ?thesis by (simp add: emit_newListener_keeps_False)
  next
    case False
    then have "(''newListener'', NewListenerHook) \<in> set em" using Cons.prems by simp
    then show ?thesis using Cons.IH by (cases x) simp
  qed
qed

text \<open>
  The constructor registers the hook before the upgrade listener, so the Server's own
  registration runs the hook: every Server built on an http server has the flag false.
\<close>

lemma Server_new_clears_lastUpgradeListener:
  assumes "Server_new e (Some opts) = Inr (s, opts', em, cs)" and "\<not> opt_noServer opts"
  shows "\<not> lastUpgradeListener s"
proof -
  have "\<not> lastUpgradeListener
          (emit_newListener (em0 @ [(''error'', ErrorForwarder), (''newListener'', NewListenerHook)])
             ''upgrade'' s0)" for em0 s0
    by (rule emit_newListener_hook) simp
  then show ?thesis
    using assms
    by (auto simp: Server_new_def Let_def emitter_on_def split: if_splits option.splits prod.splits)
qed

text \<open>
  Claim C5 does not hold of the code. A Server is built on an http server that has no
  listener at all, with the path filter \<^verbatim>\<open>/ws\<close>. Its upgrade listener is then the only,
  hence the last, upgrade listener; the flag is false all the same, and a request for
  \<^verbatim>\<open>/other?x=1\<close> gets no response: the listener registers its two error forwarders on
  the socket and returns.
\<close>

theorem path_mismatch_sole_listener_not_aborted:
  "(case Server_new
           \<lparr> native_transfer = (\<lambda>a t. 0), native_getSSLContext = (\<lambda>x. x),
             native_group_create = (\<lambda>a b. 1), global_secKey = None \<rparr>
           (Some \<lparr> opt_port = None, opt_host = None, opt_server = Some [], opt_noServer = False,
                   opt_path = Some ''/ws'', opt_perMessageDeflate = None, opt_maxPayload = None,
                   opt_noDelay = None, opt_verifyClient = None \<rparr>) of
      Inl err \<Rightarrow> False
    | Inr (s, opts, em, cs) \<Rightarrow>
        map snd (filter (\<lambda>(ev, l). ev = ''upgrade'') em) = [UpgradeListener] \<and>
        lastUpgradeListener s = False \<and>
        calls (upgradeListener_run
                 \<lparr> native_transfer = (\<lambda>a t. 0), native_getSSLContext = (\<lambda>x. x),
                   native_group_create = (\<lambda>a b. 1), global_secKey = None \<rparr>
                 opts
                 \<lparr> url = ''/other?x=1'',
                   headers = [''sec-websocket-key'' \<mapsto> ''dGhlIHNhbXBsZSBub25jZQ==''],
                   authorized = None, encrypted = None \<rparr>
                 \<lparr> isNative = False, sock_external = None, ssl = None,
                   sock_handle = Some (RawHandle 12), parent_handle = None \<rparr>
                 s None)
          = [SocketOn ''error'', SocketOn ''_tlsError''])"
  by (simp add: Server_new_def Let_def emitter_on_def normalize_path_def nativeOptions_of_def
      upgradeListener_run_def path_accepted_def path_set_def url_path_def)

text \<open>With the flag true the same request would be answered with the 400 line.\<close>

lemma path_mismatch_flag_true_aborts:
  assumes "\<not> path_accepted opts request" and "lastUpgradeListener s"
  shows "calls (upgradeListener_run e opts request socket s ur) =
           [SocketOn ''error'', SocketOn ''_tlsError'',
            SocketEnd (''HTTP/1.1 400 URL not supported'' @ CRLF @ CRLF)]"
proof -
  have "show_nat 400 = ''400''" by code_simp
  then show ?thesis
    using assms by (simp add: upgradeListener_run_def abortConnection_def Let_def)
qed

subsection \<open>Client verification\<close>

text \<open>
  A rejecting predicate is answered with one status line, and \<^verbatim>\<open>handleUpgrade\<close> is not
  reached: no transfer, no upgrade, hence no connection event. The synchronous predicate
  gets the fixed line; the asynchronous one gets whatever it passed as code and name.
\<close>

lemma sync_reject_status_line:
  assumes "opt_verifyClient opts = Some (SyncVerifier p)" and "path_accepted opts request"
    and "\<not> p \<lparr> origin = headers request ''origin'',
                secure = (defined (authorized request) \<or> defined (encrypted request)),
                req = request \<rparr>"
  shows "upgradeListener_run e opts request socket s ur =
           \<lparr> srv = s, upgradeReq = ur,
             calls = [SocketOn ''error'', SocketOn ''_tlsError'',
                      SocketEnd (''HTTP/1.1 400 Client verification failed'' @ CRLF @ CRLF)],
             thrown = None \<rparr>"
proof -
  have "show_nat 400 = ''400''" by code_simp
  then show ?thesis
    using assms by (simp add: upgradeListener_run_def abortConnection_def Let_def)
qed

lemma async_reject_status_line:
  assumes "opt_verifyClient opts = Some (AsyncVerifier p)" and "path_accepted opts request"
    and "p \<lparr> origin = headers request ''origin'',
             secure = (defined (authorized request) \<or> defined (encrypted request)),
             req = request \<rparr> = (False, code, name)"
  shows "upgradeListener_run e opts request socket s ur =
           \<lparr> srv = s, upgradeReq = ur,
             calls = [SocketOn ''error'', SocketOn ''_tlsError'',
                      SocketEnd (''HTTP/1.1 '' @ to_string code @ '' '' @ to_string name @ CRLF @ CRLF)],
             thrown = None \<rparr>"
  using assms by (simp add: upgradeListener_run_def abortConnection_def Let_def)

text \<open>
  Claim C6 does not hold of the code. An asynchronous predicate that rejects with
  \<^verbatim>\<open>cb(false)\<close>, supplying neither code nor name, is answered with the status line
  \<^verbatim>\<open>HTTP/1.1 undefined undefined\<close>, not with \<^verbatim>\<open>400 Client verification failed\<close>.
\<close>

theorem async_reject_without_code_status_line:
  "calls (upgradeListener_run
            \<lparr> native_transfer = (\<lambda>a t. 0), native_getSSLContext = (\<lambda>x. x),
              native_group_create = (\<lambda>a b. 1), global_secKey = None \<rparr>
            \<lparr> opt_port = Some 8080, opt_host = None, opt_server = None, opt_noServer = False,
              opt_path = None, opt_perMessageDeflate = None, opt_maxPayload = None,
              opt_noDelay = None,
              opt_verifyClient = Some (AsyncVerifier (\<lambda>i. (False, ArgUndefined, ArgUndefined))) \<rparr>
            \<lparr> url = ''/'',
              headers = [''sec-websocket-key'' \<mapsto> ''dGhlIHNhbXBsZSBub25jZQ==''],
              authorized = None, encrypted = None \<rparr>
            \<lparr> isNative = False, sock_external = None, ssl = None,
              sock_handle = Some (RawHandle 12), parent_handle = None \<rparr>
            \<lparr> serverGroup = Some 1, upgradeCallback = None,
              upgradeListener = Some UpgradeListener, noDelay = True,
              lastUpgradeListener = False, passedHttpServer = False, httpServer = True \<rparr>
            None)
   = [SocketOn ''error'', SocketOn ''_tlsError'',
      SocketEnd (''HTTP/1.1 undefined undefined'' @ CRLF @ CRLF)]"
  by (simp add: upgradeListener_run_def path_accepted_def path_set_def abortConnection_def)

subsection \<open>Closing the Server\<close>

text \<open>
  Claim C7. Two calls of \<^verbatim>\<open>Server.close\<close> in a row, with any callbacks: the second leaves
  the Server exactly as the first left it, with the group handle absent, and makes no
  call of \<^verbatim>\<open>native.server.group.close\<close>; over both calls the handle the Server held is
  closed once, and nothing is closed when it held none. \<^verbatim>\<open>Server_close\<close> has no throwing
  path. (The second call does repeat \<^verbatim>\<open>httpServer.removeListener\<close>, and
  \<^verbatim>\<open>httpServer.close()\<close> on a server of its own, and sets a second timer when given a
  callback.)
\<close>

theorem Server_close_twice:
  "(case Server_close cb s of
      (k1, s1) \<Rightarrow>
        (case Server_close cb' s1 of
           (k2, s2) \<Rightarrow>
             s2 = s1 \<and> serverGroup s1 = None \<and>
             filter is_GroupClose k2 = [] \<and>
             filter is_GroupClose (k1 @ k2) =
               (case serverGroup s of Some g \<Rightarrow> [GroupClose g] | None \<Rightarrow> [])))"
  by (auto simp: Server_close_def Let_def split: option.splits prod.splits)

text \<open>A Server with its own http server and group 1, closed twice without a callback.\<close>

theorem Server_close_twice_witness:
  "Server_close Undefined
     \<lparr> serverGroup = Some 1, upgradeCallback = None, upgradeListener = Some UpgradeListener,
       noDelay = True, lastUpgradeListener = False, passedHttpServer = False, httpServer = True \<rparr>
   = ([HttpRemoveListener ''upgrade'' UpgradeListener, HttpClose, GroupClose 1],
      \<lparr> serverGroup = None, upgradeCallback = None, upgradeListener = Some UpgradeListener,
        noDelay = True, lastUpgradeListener = False, passedHttpServer = False, httpServer = True \<rparr>) \<and>
   Server_close Undefined
     \<lparr> serverGroup = None, upgradeCallback = None, upgradeListener = Some UpgradeListener,
       noDelay = True, lastUpgradeListener = False, passedHttpServer = False, httpServer = True \<rparr>
   = ([HttpRemoveListener ''upgrade'' UpgradeListener, HttpClose],
      \<lparr> serverGroup = None, upgradeCallback = None, upgradeListener = Some UpgradeListener,
        noDelay = True, lastUpgradeListener = False, passedHttpServer = False, httpServer = True \<rparr>)"
  using Server_close_twice
      [where cb = Undefined and cb' = Undefined
         and s = "\<lparr> serverGroup = Some 1, upgradeCallback = None,
                    upgradeListener = Some UpgradeListener, noDelay = True,
                    lastUpgradeListener = False, passedHttpServer = False, httpServer = True \<rparr>"]
  by (simp add: Server_close_def)

section \<open>Properties of the event bridge\<close>

text \<open>
  Calling the value in a slot never changes the handle, and every user function it
  reaches is called with the \<^verbatim>\<open>readyState\<close> the connection had before.
\<close>

lemma invoke_readyState:
  "invoke f args c = Inr (c', evs) \<Longrightarrow>
     external c' = external c \<and> (\<forall>k a r. HandlerCalled k a r \<in> set evs \<longrightarrow> r = readyState c)"
proof (induction f args c rule: invoke.induct)
  case (4 i ev f args c)
  have "external (set_slot ev Noop c) = external c"
    by (simp add: set_slot_def)
  then show ?case using 4 by (simp add: readyState_def)
qed auto

lemma invoke_callable:
  "callable f \<Longrightarrow> \<exists>c' evs. invoke f args c = Inr (c', evs)"
  by (induction f args c rule: invoke.induct) simp_all

text \<open>
  Claim C8. The engine reports the disconnection of a Connection (of either group). When
  the handler returns, no user function has been called; the call of the close handler is
  the one new entry of the tick queue; the Connection's handle is absent, so that
  \<^verbatim>\<open>readyState\<close> reads CLOSED; and the engine handle has no user data. When the queued
  task then runs, every user function it calls sees \<^verbatim>\<open>readyState\<close> CLOSED, and the user
  data is still cleared; and it does run to the end whenever the close slot holds a
  function.
\<close>

theorem disconnection_deferred:
  assumes "heap w webSocket = Some c"
  shows "\<exists>w' c'. onDisconnection ext code message webSocket w = Inr w' \<and>
           delivered w' = delivered w \<and>
           tickQueue w' = tickQueue w @ [RunClose webSocket code message] \<and>
           heap w' webSocket = Some c' \<and> external c' = None \<and> readyState c' = CLOSED \<and>
           userData w' ext = None \<and>
           (callable (internalOnClose c) \<longrightarrow>
              (\<exists>w''. run_task (RunClose webSocket code message) w' = Inr w'')) \<and>
           (\<forall>w''. run_task (RunClose webSocket code message) w' = Inr w'' \<longrightarrow>
              userData w'' ext = None \<and>
              (\<exists>evs. delivered w'' = delivered w @ evs \<and>
                     (\<forall>k a r. HandlerCalled k a r \<in> set evs \<longrightarrow> r = CLOSED)))"
proof -
  define c' where "c' = c\<lparr>external := None\<rparr>"
  define w' where "w' = w\<lparr> heap := (heap w)(webSocket \<mapsto> c'),
                           tickQueue := tickQueue w @ [RunClose webSocket code message],
                           userData := (userData w)(ext := None) \<rparr>"
  have step: "onDisconnection ext code message webSocket w = Inr w'"
    using assms by (simp add: onDisconnection_def w'_def c'_def)
  have closed: "readyState c' = CLOSED"
    by (simp add: readyState_def c'_def)
  have later: "userData w'' ext = None \<and>
      (\<exists>evs. delivered w'' = delivered w @ evs \<and>
             (\<forall>k a r. HandlerCalled k a r \<in> set evs \<longrightarrow> r = CLOSED))"
    if run: "run_task (RunClose webSocket code message) w' = Inr w''" for w''
  proof -
    from run obtain c'' evs where
      inv: "invoke (internalOnClose c') [ACode code, AMessage message] c' = Inr (c'', evs)"
      and w'': "w'' = w'\<lparr> heap := (heap w')(webSocket \<mapsto> c''), delivered := delivered w' @ evs \<rparr>"
      by (auto simp: w'_def split: sum.splits)
    from invoke_readyState [OF inv] closed
    have "\<forall>k a r. HandlerCalled k a r \<in> set evs \<longrightarrow> r = CLOSED" by simp
    then show ?thesis by (simp add: w'' w'_def)
  qed
  have runs: "\<exists>w''. run_task (RunClose webSocket code message) w' = Inr w''"
    if "callable (internalOnClose c)"
  proof -
    from that have "callable (internalOnClose c')" by (simp add: c'_def)
    from invoke_callable [OF this]
    obtain c'' evs where
      "invoke (internalOnClose c') [ACode code, AMessage message] c' = Inr (c'', evs)"
      by blast
    then show ?thesis by (simp add: w'_def)
  qed
  show ?thesis
    using step closed later runs
    by (intro exI [of _ w'] exI [of _ c']) (simp add: w'_def c'_def)
qed

text \<open>
  A server-side connection on handle 7 with a close handler, disconnected with code 1000:
  nothing is delivered by the engine's callback, and the queued task delivers the one
  call, made with \<^verbatim>\<open>readyState\<close> CLOSED.
\<close>

theorem disconnection_deferred_witness:
  "(case onDisconnection 7 (Some 1000) (Some ''bye'') 0
           \<lparr> heap = [0 \<mapsto> (WebSocket_new (Some 7))\<lparr>internalOnClose := UserFn 3\<rparr>],
             userData = [7 \<mapsto> 0], tickQueue = [], delivered = [] \<rparr> of
      Inl err \<Rightarrow> False
    | Inr w' \<Rightarrow>
        delivered w' = [] \<and>
        tickQueue w' = [RunClose 0 (Some 1000) (Some ''bye'')] \<and>
        map_option readyState (heap w' 0) = Some CLOSED \<and>
        userData w' 7 = None \<and>
        (case run_task (RunClose 0 (Some 1000) (Some ''bye'')) w' of
           Inl err \<Rightarrow> False
         | Inr w'' \<Rightarrow>
             userData w'' 7 = None \<and>
             delivered w'' = [HandlerCalled 3 [ACode (Some 1000), AMessage (Some ''bye'')] CLOSED]))"
  using disconnection_deferred
      [where w = "\<lparr> heap = [0 \<mapsto> (WebSocket_new (Some 7))\<lparr>internalOnClose := UserFn 3\<rparr>],
                    userData = [7 \<mapsto> 0], tickQueue = [], delivered = [] \<rparr>"
         and webSocket = 0 and ext = 7 and code = "Some 1000" and message = "Some ''bye''"
         and c = "(WebSocket_new (Some 7))\<lparr>internalOnClose := UserFn 3\<rparr>"]
  by (simp add: onDisconnection_def WebSocket_new_def readyState_def)

end
